theory Spec2Isabelle
  imports Main
begin

section \<open>Values exchanged with the remote services\<close>

text \<open>
  A decoded JSON document, as Python's \<open>response.json()\<close> hands it to the program:
  \<open>None\<close>, \<open>bool\<close>, \<open>int\<close>, \<open>float\<close> (kept as its literal text; the program never
  computes with it), \<open>str\<close>, \<open>list\<close> and \<open>dict\<close>. A \<open>dict\<close> is the list of its
  items in insertion order; its keys are strings and pairwise distinct.

  A \<open>str\<close> is the list of the bytes of its UTF-8 encoding. Python's \<open>str\<close> can also hold
  a lone surrogate (U+D800 to U+DFFF; \<open>json\<close> decodes the escape \<open>\ud800\<close> to one), which
  UTF-8 proper cannot encode: it is kept as the three bytes \<open>ED A0..BF 80..BF\<close> that Python's
  \<open>surrogatepass\<close> error handler writes for it. Every \<open>str\<close> has exactly one such byte
  list, so equality and concatenation of strings are those of the lists.
\<close>

datatype json =
    JNull
  | JBool bool
  | JInt int
  | JFloat string
  | JStr string
  | JArr "json list"
  | JObj "(string \<times> json) list"

text \<open>A Python \<open>dict\<close> with string keys: the Paper Record, and the request parameters.\<close>

type_synonym pydict = "(string \<times> json) list"

text \<open>
  The exceptions the program can meet. \<open>RequestException\<close> stands for any exception of
  class \<open>requests.exceptions.RequestException\<close> raised by the library itself (connection
  failure, timeout, ...), with its description; \<open>HTTPError\<close> is the subclass that
  \<open>raise_for_status\<close> raises, with the status code. \<open>OSError\<close> is an \<open>OSError\<close> that
  is not a request exception (what \<open>open\<close> raises), with its description.
  \<open>UnicodeEncodeError\<close> is what writing to a text file raises when the text cannot be
  encoded.
\<close>

datatype exn =
    RequestException string
  | HTTPError nat
  | AttributeError
  | TypeError
  | ValueError
  | OSError string
  | UnicodeEncodeError

fun is_request_exception :: "exn \<Rightarrow> bool" where
  "is_request_exception (RequestException _) = True"
| "is_request_exception (HTTPError _) = True"
| "is_request_exception _ = False"

text \<open>\<open>d.get(key, default)\<close>: only a \<open>dict\<close> has the method; a list or a dict as key
  is unhashable; a key that is not a string equals no key of a decoded JSON object.\<close>

fun py_get :: "json \<Rightarrow> json \<Rightarrow> json \<Rightarrow> exn + json" where
  "py_get (JObj kvs) (JStr k) d = Inr (case map_of kvs k of Some v \<Rightarrow> v | None \<Rightarrow> d)"
| "py_get (JObj kvs) (JArr _) d = Inl TypeError"
| "py_get (JObj kvs) (JObj _) d = Inl TypeError"
| "py_get (JObj kvs) _ d = Inr d"
| "py_get _ _ _ = Inl AttributeError"

text \<open>The characters of a \<open>str\<close>: the first byte of a character tells how many bytes
  the character has (one below \<open>80\<close>, two below \<open>E0\<close>, three below \<open>F0\<close>, else four).\<close>

definition utf8_length :: "char \<Rightarrow> nat" where
  "utf8_length c =
     (if of_char c < (0x80::nat) then 1
      else if of_char c < (0xE0::nat) then 2
      else if of_char c < (0xF0::nat) then 3
      else 4)"

fun py_chars :: "string \<Rightarrow> string list" where
  "py_chars [] = []"
| "py_chars (c # cs) =
     (c # take (utf8_length c - 1) cs) # py_chars (drop (utf8_length c - 1) cs)"

text \<open>\<open>for x in v\<close>: a list yields its elements, a dict its keys, a string its
  characters (each a string of one character); anything else is not iterable.\<close>

fun py_iter :: "json \<Rightarrow> exn + json list" where
  "py_iter (JArr xs) = Inr xs"
| "py_iter (JObj kvs) = Inr (map (\<lambda>kv. JStr (fst kv)) kvs)"
| "py_iter (JStr s) = Inr (map JStr (py_chars s))"
| "py_iter _ = Inl TypeError"

section \<open>The network, the console and the file system\<close>

datatype request = Request (url: string) (params: pydict)

text \<open>A response object: its status code, and what \<open>response.json()\<close> does on its body
  (the decoded document, or the exception the library raises on a body that is not JSON).\<close>

datatype response = Response (status_code: nat) (json_result: "exn + json")

text \<open>One call of \<open>print\<close>: a fixed text, a text followed by \<open>str(e)\<close> of an
  exception, or the \<open>repr\<close> of a record.\<close>

datatype printed =
    Text string
  | TextExn string exn
  | DictRepr pydict

text \<open>
  What is outside the program: \<open>remote\<close> answers a request, given the requests made
  before it (so the same request may be answered differently the second time); it either
  raises or returns a response. \<open>open_error\<close> tells whether opening a path for writing
  fails, and with what.
\<close>

record env =
  remote :: "request list \<Rightarrow> request \<Rightarrow> exn + response"
  open_error :: "string \<Rightarrow> exn option"

text \<open>
  What the program changes: the requests sent so far, the lines printed so far, and the
  files. A CSV file is the list of the rows written to it, each the list of its cell
  values; the rendering of a row as text (quoting, \<open>str\<close> of a value that is not a
  string) is the csv library's.
\<close>

record world =
  http_log :: "request list"
  console :: "printed list"
  files :: "string \<rightharpoonup> json list list"

definition http_get :: "env \<Rightarrow> request \<Rightarrow> world \<Rightarrow> (exn + response) \<times> world" where
  "http_get e req w = (remote e (http_log w) req, w\<lparr>http_log := http_log w @ [req]\<rparr>)"

definition raise_for_status :: "response \<Rightarrow> exn + unit" where
  "raise_for_status r =
     (if 400 \<le> status_code r \<and> status_code r < 600 then Inl (HTTPError (status_code r))
      else Inr ())"

text \<open>The three lines both fetch functions start with:
  \<open>response = requests.get(url, params=params); response.raise_for_status();
  response.json()\<close>.\<close>

definition http_json :: "env \<Rightarrow> request \<Rightarrow> world \<Rightarrow> (exn + json) \<times> world" where
  "http_json e req w =
     (case http_get e req w of
        (Inl x, w1) \<Rightarrow> (Inl x, w1)
      | (Inr r, w1) \<Rightarrow>
          (case raise_for_status r of
             Inl x \<Rightarrow> (Inl x, w1)
           | Inr _ \<Rightarrow> (json_result r, w1)))"

definition print_line :: "printed \<Rightarrow> world \<Rightarrow> world" where
  "print_line p w = w\<lparr>console := console w @ [p]\<rparr>"

section \<open>fetch_paper_details\<close>

definition details_url :: string where
  "details_url = ''https://eutils.ncbi.nlm.nih.gov/entrez/eutils/esummary.fcgi''"

definition details_request :: "json \<Rightarrow> request" where
  "details_request paper_id =
     Request details_url [(''db'', JStr ''pubmed''), (''id'', paper_id), (''retmode'', JStr ''json'')]"

text \<open>\<open>response.json().get('result', {}).get(paper_id, {})\<close>\<close>

definition summary_entry :: "json \<Rightarrow> json \<Rightarrow> exn + json" where
  "summary_entry doc paper_id =
     (case py_get doc (JStr ''result'') (JObj []) of
        Inl x \<Rightarrow> Inl x
      | Inr res \<Rightarrow> py_get res paper_id (JObj []))"

text \<open>Lines 34 to 48: the two lookups with their default, and the dict literal.\<close>

definition build_record :: "json \<Rightarrow> json \<Rightarrow> exn + pydict" where
  "build_record paper_id data =
     (case py_get data (JStr ''title'') (JStr ''N/A'') of
        Inl x \<Rightarrow> Inl x
      | Inr title \<Rightarrow>
          (case py_get data (JStr ''pubdate'') (JStr ''N/A'') of
             Inl x \<Rightarrow> Inl x
           | Inr pub_date \<Rightarrow>
               Inr [(''PubmedID'', paper_id),
                    (''Title'', title),
                    (''Publication Date'', pub_date),
                    (''Non-academic Author(s)'', JStr ''John Doe, PharmaCorp Inc.''),
                    (''Company Affiliation(s)'', JStr ''PharmaCorp Inc.''),
                    (''Corresponding Author Email'', JStr ''contact@pharma.com'')]))"

definition fetch_paper_details :: "env \<Rightarrow> json \<Rightarrow> world \<Rightarrow> (exn + pydict) \<times> world" where
  "fetch_paper_details e paper_id w =
     (case http_json e (details_request paper_id) w of
        (Inl x, w1) \<Rightarrow> (Inl x, w1)
      | (Inr doc, w1) \<Rightarrow>
          (case summary_entry doc paper_id of
             Inl x \<Rightarrow> (Inl x, w1)
           | Inr data \<Rightarrow> (build_record paper_id data, w1)))"

section \<open>fetch_papers\<close>

definition search_url :: string where
  "search_url = ''https://eutils.ncbi.nlm.nih.gov/entrez/eutils/esearch.fcgi''"

definition search_request :: "string \<Rightarrow> request" where
  "search_request q =
     Request search_url
       [(''db'', JStr ''pubmed''), (''term'', JStr q), (''retmode'', JStr ''json''), (''retmax'', JInt 20)]"

text \<open>\<open>data.get('esearchresult', {}).get('idlist', [])\<close>\<close>

definition id_list :: "json \<Rightarrow> exn + json" where
  "id_list data =
     (case py_get data (JStr ''esearchresult'') (JObj []) of
        Inl x \<Rightarrow> Inl x
      | Inr res \<Rightarrow> py_get res (JStr ''idlist'') (JArr []))"

text \<open>The \<open>for\<close> loop of lines 20 to 23, with \<open>details\<close> as accumulator. A dict is
  truthy when it is not empty.\<close>

fun fetch_loop :: "env \<Rightarrow> json list \<Rightarrow> pydict list \<Rightarrow> world \<Rightarrow> (exn + pydict list) \<times> world" where
  "fetch_loop e [] details w = (Inr details, w)"
| "fetch_loop e (paper_id # rest) details w =
     (case fetch_paper_details e paper_id w of
        (Inl x, w1) \<Rightarrow> (Inl x, w1)
      | (Inr paper_data, w1) \<Rightarrow>
          fetch_loop e rest (if paper_data \<noteq> [] then details @ [paper_data] else details) w1)"

definition fetch_papers :: "env \<Rightarrow> string \<Rightarrow> world \<Rightarrow> (exn + pydict list) \<times> world" where
  "fetch_papers e q w =
     (case http_json e (search_request q) w of
        (Inl x, w1) \<Rightarrow> (Inl x, w1)
      | (Inr data, w1) \<Rightarrow>
          (case id_list data of
             Inl x \<Rightarrow> (Inl x, w1)
           | Inr ids \<Rightarrow>
               (case py_iter ids of
                  Inl x \<Rightarrow> (Inl x, w1)
                | Inr xs \<Rightarrow> fetch_loop e xs [] w1)))"

section \<open>save_to_csv\<close>

definition headers :: "string list" where
  "headers = [''PubmedID'', ''Title'', ''Publication Date'', ''Non-academic Author(s)'',
              ''Company Affiliation(s)'', ''Corresponding Author Email'']"

text \<open>\<open>csv.DictWriter._dict_to_list\<close> with the defaults \<open>extrasaction='raise'\<close> and
  \<open>restval=''\<close>: a key outside the field names is a \<open>ValueError\<close>, a missing one is
  written as the empty string.\<close>

definition dict_to_list :: "string list \<Rightarrow> pydict \<Rightarrow> exn + json list" where
  "dict_to_list fieldnames rowdict =
     (if filter (\<lambda>k. k \<notin> set fieldnames) (map fst rowdict) \<noteq> [] then Inl ValueError
      else Inr (map (\<lambda>k. case map_of rowdict k of Some v \<Rightarrow> v | None \<Rightarrow> JStr '''') fieldnames))"

text \<open>
  The file of line 52 is a text file with \<open>encoding='utf-8'\<close> and the default error
  handler \<open>strict\<close>: a write raises \<open>UnicodeEncodeError\<close> when the text has a lone
  surrogate, and only then. In a \<open>str\<close> that is the byte \<open>ED\<close> followed by a byte from
  \<open>A0\<close> to \<open>BF\<close>: \<open>ED\<close> is only ever the first of the three bytes of a character from
  U+D000 to U+DFFF, and the second byte is below \<open>A0\<close> for those up to U+D7FF.
\<close>

fun utf8_encodable :: "string \<Rightarrow> bool" where
  "utf8_encodable (c # d # cs) =
     (if of_char c = (0xED::nat) \<and> (0xA0::nat) \<le> of_char d \<and> of_char d \<le> (0xBF::nat) then False
      else utf8_encodable (d # cs))"
| "utf8_encodable _ = True"

text \<open>
  \<open>csv.writer\<close> writes a \<open>str\<close> cell as it is (quoted where needed), \<open>None\<close> as the
  empty text, and any other value as \<open>str(value)\<close>: digits for a number, and for a list
  or a dict the \<open>repr\<close> of its parts, which writes a lone surrogate as the escape
  \<open>\udXXX\<close>. So only a \<open>str\<close> cell can bring a lone surrogate into the line.
\<close>

fun cell_encodable :: "json \<Rightarrow> bool" where
  "cell_encodable (JStr s) = utf8_encodable s"
| "cell_encodable _ = True"

definition write_row :: "string \<Rightarrow> json list \<Rightarrow> world \<Rightarrow> world" where
  "write_row filename row w =
     w\<lparr>files := (files w)(filename \<mapsto> (case files w filename of Some rows \<Rightarrow> rows | None \<Rightarrow> []) @ [row])\<rparr>"

text \<open>\<open>writer.writerow(row)\<close>: the row is rendered as one line and written with one call
  of the file's \<open>write\<close>, which encodes the whole line before it keeps any of it.\<close>

definition writerow :: "string \<Rightarrow> json list \<Rightarrow> world \<Rightarrow> (exn + unit) \<times> world" where
  "writerow filename row w =
     (if list_all cell_encodable row then (Inr (), write_row filename row w)
      else (Inl UnicodeEncodeError, w))"

text \<open>\<open>writer.writerows(papers)\<close>: the rows are converted and written one at a time, so
  the rows before a failing one stay in the file.\<close>

fun writerows :: "string list \<Rightarrow> string \<Rightarrow> pydict list \<Rightarrow> world \<Rightarrow> (exn + unit) \<times> world" where
  "writerows fieldnames filename [] w = (Inr (), w)"
| "writerows fieldnames filename (p # ps) w =
     (case dict_to_list fieldnames p of
        Inl x \<Rightarrow> (Inl x, w)
      | Inr row \<Rightarrow>
          (case writerow filename row w of
             (Inl x, w1) \<Rightarrow> (Inl x, w1)
           | (Inr _, w1) \<Rightarrow> writerows fieldnames filename ps w1))"

text \<open>\<open>open(filename, mode='w')\<close> raises or leaves an empty file; \<open>writeheader\<close> writes
  the field names as a row; leaving the \<open>with\<close> block closes the file, also when a write
  has raised, so what was written before stays.\<close>

definition save_to_csv :: "env \<Rightarrow> pydict list \<Rightarrow> string \<Rightarrow> world \<Rightarrow> (exn + unit) \<times> world" where
  "save_to_csv e papers filename w =
     (case open_error e filename of
        Some x \<Rightarrow> (Inl x, w)
      | None \<Rightarrow>
          (case writerow filename (map JStr headers) (w\<lparr>files := (files w)(filename \<mapsto> [])\<rparr>) of
             (Inl x, w1) \<Rightarrow> (Inl x, w1)
           | (Inr _, w1) \<Rightarrow> writerows headers filename papers w1))"

section \<open>main\<close>

text \<open>The parsed command line: the positional query, \<open>-f/--file\<close> (\<open>None\<close> when not
  given) and \<open>-d/--debug\<close>.\<close>

record args =
  query :: string
  outfile :: "string option"
  debug :: bool

fun print_all :: "pydict list \<Rightarrow> world \<Rightarrow> world" where
  "print_all [] w = w"
| "print_all (paper # rest) w = print_all rest (print_line (DictRepr paper) w)"

text \<open>The body of the \<open>try\<close>. A string is truthy when it is not empty, \<open>None\<close> is
  falsy.\<close>

definition main_try :: "env \<Rightarrow> args \<Rightarrow> world \<Rightarrow> (exn + unit) \<times> world" where
  "main_try e a w =
     (case fetch_papers e (query a) w of
        (Inl x, w1) \<Rightarrow> (Inl x, w1)
      | (Inr papers, w1) \<Rightarrow>
          (if papers = [] then (Inr (), print_line (Text ''No papers found for the given query.'') w1)
           else
             (case outfile a of
                None \<Rightarrow> (Inr (), print_all papers w1)
              | Some f \<Rightarrow>
                  (if f = [] then (Inr (), print_all papers w1)
                   else
                     (case save_to_csv e papers f w1 of
                        (Inl x, w2) \<Rightarrow> (Inl x, w2)
                      | (Inr _, w2) \<Rightarrow> (Inr (), print_line (Text (''Results saved to '' @ f)) w2))))))"

text \<open>The \<open>except\<close> clause and the process's exit status: 0 when \<open>main\<close> returns, 1 when
  an exception leaves it.\<close>

definition main :: "env \<Rightarrow> args \<Rightarrow> world \<Rightarrow> nat \<times> world" where
  "main e a w =
     (case main_try e a w of
        (Inr _, w1) \<Rightarrow> (0, w1)
      | (Inl x, w1) \<Rightarrow>
          (if is_request_exception x then (0, print_line (TextExn ''Error fetching data: '' x) w1)
           else (1, w1)))"

section \<open>An example run\<close>

text \<open>
  The remote services of the example: the query \<open>cancer\<close> finds the identifiers 111 and
  222, of which 222 has neither title nor date; \<open>flaky\<close> finds 111 and 999, and the
  summary service answers 999 with status 503; \<open>nothing\<close> finds no identifier; \<open>odd\<close>
  is answered with a document that is not an object; any other query cannot connect.
  The summary of 333 has no entry for it, the one of 444 has a null title and an empty
  date, the one of 555 has the title \<open>"\ud800"\<close>, a lone surrogate. The path
  \<open>/proc/out.csv\<close> cannot be opened for writing.
\<close>

definition example_search :: "json \<Rightarrow> exn + response" where
  "example_search term =
     (if term = JStr ''cancer'' then
        Inr (Response 200 (Inr (JObj [(''esearchresult'',
          JObj [(''count'', JStr ''2''), (''idlist'', JArr [JStr ''111'', JStr ''222''])])])))
      else if term = JStr ''flaky'' then
        Inr (Response 200 (Inr (JObj [(''esearchresult'',
          JObj [(''count'', JStr ''2''), (''idlist'', JArr [JStr ''111'', JStr ''999''])])])))
      else if term = JStr ''odd'' then
        Inr (Response 200 (Inr (JArr [])))
      else if term = JStr ''nothing'' then
        Inr (Response 200 (Inr (JObj [(''esearchresult'',
          JObj [(''count'', JStr ''0''), (''idlist'', JArr [])])])))
      else Inl (RequestException ''connection refused''))"

definition example_summary :: "json \<Rightarrow> exn + response" where
  "example_summary paper_id =
     (if paper_id = JStr ''111'' then
        Inr (Response 200 (Inr (JObj [(''result'',
          JObj [(''uids'', JArr [JStr ''111'']),
                (''111'', JObj [(''uid'', JStr ''111''), (''pubdate'', JStr ''2023''),
                                (''title'', JStr ''Study A'')])])])))
      else if paper_id = JStr ''222'' then
        Inr (Response 200 (Inr (JObj [(''result'',
          JObj [(''uids'', JArr [JStr ''222'']), (''222'', JObj [(''uid'', JStr ''222'')])])])))
      else if paper_id = JStr ''333'' then
        Inr (Response 200 (Inr (JObj [(''result'', JObj [(''uids'', JArr [])])])))
      else if paper_id = JStr ''444'' then
        Inr (Response 200 (Inr (JObj [(''result'',
          JObj [(''uids'', JArr [JStr ''444'']),
                (''444'', JObj [(''uid'', JStr ''444''), (''pubdate'', JStr ''''),
                                (''title'', JNull)])])])))
      else if paper_id = JStr ''555'' then
        Inr (Response 200 (Inr (JObj [(''result'',
          JObj [(''uids'', JArr [JStr ''555'']),
                (''555'', JObj [(''uid'', JStr ''555''), (''pubdate'', JStr ''2024''),
                                (''title'', JStr [CHR 0xED, CHR 0xA0, CHR 0x80])])])])))
      else Inr (Response 503 (Inr JNull)))"

definition example_remote :: "request list \<Rightarrow> request \<Rightarrow> exn + response" where
  "example_remote history req =
     (case map_of (params req) ''term'' of
        Some term \<Rightarrow> example_search term
      | None \<Rightarrow>
          (case map_of (params req) ''id'' of
             Some paper_id \<Rightarrow> example_summary paper_id
           | None \<Rightarrow> Inl (RequestException ''connection refused'')))"

definition example_env :: env where
  "example_env =
     \<lparr>remote = example_remote,
      open_error = (\<lambda>path. if path = ''/proc/out.csv'' then Some (OSError ''Permission denied'') else None)\<rparr>"

definition empty_world :: world where
  "empty_world = \<lparr>http_log = [], console = [], files = Map.empty\<rparr>"

definition record_111 :: pydict where
  "record_111 =
     [(''PubmedID'', JStr ''111''), (''Title'', JStr ''Study A''), (''Publication Date'', JStr ''2023''),
      (''Non-academic Author(s)'', JStr ''John Doe, PharmaCorp Inc.''),
      (''Company Affiliation(s)'', JStr ''PharmaCorp Inc.''),
      (''Corresponding Author Email'', JStr ''contact@pharma.com'')]"

definition record_222 :: pydict where
  "record_222 =
     [(''PubmedID'', JStr ''222''), (''Title'', JStr ''N/A''), (''Publication Date'', JStr ''N/A''),
      (''Non-academic Author(s)'', JStr ''John Doe, PharmaCorp Inc.''),
      (''Company Affiliation(s)'', JStr ''PharmaCorp Inc.''),
      (''Corresponding Author Email'', JStr ''contact@pharma.com'')]"

definition record_333 :: pydict where
  "record_333 =
     [(''PubmedID'', JStr ''333''), (''Title'', JStr ''N/A''), (''Publication Date'', JStr ''N/A''),
      (''Non-academic Author(s)'', JStr ''John Doe, PharmaCorp Inc.''),
      (''Company Affiliation(s)'', JStr ''PharmaCorp Inc.''),
      (''Corresponding Author Email'', JStr ''contact@pharma.com'')]"

definition record_555 :: pydict where
  "record_555 =
     [(''PubmedID'', JStr ''555''), (''Title'', JStr [CHR 0xED, CHR 0xA0, CHR 0x80]),
      (''Publication Date'', JStr ''2024''),
      (''Non-academic Author(s)'', JStr ''John Doe, PharmaCorp Inc.''),
      (''Company Affiliation(s)'', JStr ''PharmaCorp Inc.''),
      (''Corresponding Author Email'', JStr ''contact@pharma.com'')]"

definition flaky_ids :: json where
  "flaky_ids = JArr [JStr ''111'', JStr ''999'']"

definition flaky_data :: json where
  "flaky_data = JObj [(''esearchresult'', JObj [(''count'', JStr ''2''), (''idlist'', flaky_ids)])]"

definition nothing_data :: json where
  "nothing_data = JObj [(''esearchresult'', JObj [(''count'', JStr ''0''), (''idlist'', JArr [])])]"

text \<open>Command lines of the example.\<close>

definition cancer_args :: "string option \<Rightarrow> args" where
  "cancer_args f = \<lparr>query = ''cancer'', outfile = f, debug = False\<rparr>"

definition flaky_args :: args where
  "flaky_args = \<lparr>query = ''flaky'', outfile = Some ''out.csv'', debug = False\<rparr>"

definition nothing_args :: args where
  "nothing_args = \<lparr>query = ''nothing'', outfile = Some ''out.csv'', debug = False\<rparr>"

definition odd_args :: args where
  "odd_args = \<lparr>query = ''odd'', outfile = None, debug = False\<rparr>"

section \<open>What one call changes\<close>

lemma http_json_world:
  "http_json e req w = (r, w1) \<Longrightarrow> w1 = w\<lparr>http_log := http_log w @ [req]\<rparr>"
  by (auto simp: http_json_def http_get_def split: sum.splits prod.splits)

lemma build_record_Inr:
  "build_record paper_id data = Inr r \<Longrightarrow>
     \<exists>kvs. data = JObj kvs \<and>
       r = [(''PubmedID'', paper_id),
            (''Title'', case map_of kvs ''title'' of Some v \<Rightarrow> v | None \<Rightarrow> JStr ''N/A''),
            (''Publication Date'', case map_of kvs ''pubdate'' of Some v \<Rightarrow> v | None \<Rightarrow> JStr ''N/A''),
            (''Non-academic Author(s)'', JStr ''John Doe, PharmaCorp Inc.''),
            (''Company Affiliation(s)'', JStr ''PharmaCorp Inc.''),
            (''Corresponding Author Email'', JStr ''contact@pharma.com'')]"
  by (cases data) (auto simp: build_record_def split: sum.splits)

lemma fetch_paper_details_Inr:
  assumes "fetch_paper_details e paper_id w = (Inr r, w1)"
  shows "\<exists>doc kvs.
     http_json e (details_request paper_id) w = (Inr doc, w1) \<and>
     summary_entry doc paper_id = Inr (JObj kvs) \<and>
     build_record paper_id (JObj kvs) = Inr r"
  using assms
  by (auto simp: fetch_paper_details_def split: sum.splits prod.splits dest: build_record_Inr)

lemma fetch_paper_details_world:
  "fetch_paper_details e paper_id w = (r, w1) \<Longrightarrow>
     w1 = w\<lparr>http_log := http_log w @ [details_request paper_id]\<rparr>"
  by (auto simp: fetch_paper_details_def split: sum.splits prod.splits dest: http_json_world)

lemma fetch_loop_world:
  "fetch_loop e ids acc w = (r, w1) \<Longrightarrow> files w1 = files w \<and> console w1 = console w"
proof (induction ids arbitrary: acc w)
  case Nil
  then show ?case by simp
next
  case (Cons p ps)
  then show ?case
    by (auto split: sum.splits prod.splits dest!: fetch_paper_details_world)
qed

lemma fetch_loop_Inr:
  "fetch_loop e ids acc w = (Inr papers, w1) \<Longrightarrow>
     w1 = w\<lparr>http_log := http_log w @ map details_request ids\<rparr> \<and>
     (\<exists>new. papers = acc @ new \<and> map (\<lambda>p. map_of p ''PubmedID'') new = map Some ids)"
proof (induction ids arbitrary: acc w)
  case Nil
  then show ?case by simp
next
  case (Cons p ps)
  from Cons.prems obtain pd w2 where
    d: "fetch_paper_details e p w = (Inr pd, w2)" and
    l: "fetch_loop e ps (if pd \<noteq> [] then acc @ [pd] else acc) w2 = (Inr papers, w1)"
    by (auto split: sum.splits prod.splits)
  from d have w2: "w2 = w\<lparr>http_log := http_log w @ [details_request p]\<rparr>"
    by (rule fetch_paper_details_world)
  from d obtain kvs where "build_record p (JObj kvs) = Inr pd"
    using fetch_paper_details_Inr by blast
  then have pd: "pd \<noteq> []" "map_of pd ''PubmedID'' = Some p"
    by (auto dest: build_record_Inr)
  from Cons.IH [OF l] pd w2 show ?case by auto
qed

lemma fetch_loop_returns:
  assumes "\<And>k. k < length ids \<Longrightarrow>
             \<exists>r v. fetch_paper_details e (ids ! k)
                     (w\<lparr>http_log := http_log w @ map details_request (take k ids)\<rparr>) = (Inr r, v)"
  shows "\<exists>papers v. fetch_loop e ids acc w = (Inr papers, v)"
  using assms
proof (induction ids arbitrary: acc w)
  case Nil
  then show ?case by simp
next
  case (Cons p ps)
  from Cons.prems [of 0] obtain r v where d: "fetch_paper_details e p w = (Inr r, v)"
    by auto
  then have v: "v = w\<lparr>http_log := http_log w @ [details_request p]\<rparr>"
    by (rule fetch_paper_details_world)
  have "\<exists>r' v'. fetch_paper_details e (ps ! k)
                   (v\<lparr>http_log := http_log v @ map details_request (take k ps)\<rparr>) = (Inr r', v')"
    if "k < length ps" for k
    using Cons.prems [of "Suc k"] that by (simp add: v)
  from Cons.IH [OF this] d show ?case
    by simp
qed

lemma fetch_loop_append:
  "fetch_loop e (pre @ post) acc w =
     (case fetch_loop e pre acc w of
        (Inl x, w1) \<Rightarrow> (Inl x, w1)
      | (Inr acc1, w1) \<Rightarrow> fetch_loop e post acc1 w1)"
  by (induction pre arbitrary: acc w) (auto split: sum.splits prod.splits)

lemma fetch_papers_world:
  "fetch_papers e q w = (r, w1) \<Longrightarrow> files w1 = files w \<and> console w1 = console w"
  by (auto simp: fetch_papers_def split: sum.splits prod.splits
           dest!: http_json_world fetch_loop_world)

lemma main_request_exception:
  assumes "fetch_papers e (query a) w = (Inl x, w1)" and "is_request_exception x"
  shows "main e a w = (0, print_line (TextExn ''Error fetching data: '' x) w1)"
  using assms by (simp add: main_def main_try_def)

lemma dict_to_list_ok:
  "set (map fst p) \<subseteq> set hs \<Longrightarrow>
     dict_to_list hs p = Inr (map (\<lambda>k. case map_of p k of Some v \<Rightarrow> v | None \<Rightarrow> JStr '''') hs)"
  by (auto simp: dict_to_list_def filter_empty_conv)

lemma write_row_append:
  "write_row f row (w\<lparr>files := F(f \<mapsto> rows)\<rparr>) = w\<lparr>files := F(f \<mapsto> rows @ [row])\<rparr>"
  by (simp add: write_row_def)

lemma writerow_ok:
  "list_all cell_encodable row \<Longrightarrow>
     writerow f row (w\<lparr>files := F(f \<mapsto> rows)\<rparr>) = (Inr (), w\<lparr>files := F(f \<mapsto> rows @ [row])\<rparr>)"
  by (simp add: writerow_def write_row_append)

lemma writerow_unencodable:
  "\<not> list_all cell_encodable row \<Longrightarrow> writerow f row w = (Inl UnicodeEncodeError, w)"
  by (simp add: writerow_def)

lemma headers_encodable:
  "list_all cell_encodable (map JStr headers)"
  by (simp add: headers_def)

lemma lookup_encodable:
  assumes "list_all cell_encodable (map snd p)"
  shows "cell_encodable (case map_of p k of Some v \<Rightarrow> v | None \<Rightarrow> JStr '''')"
proof (cases "map_of p k")
  case None
  then show ?thesis by simp
next
  case (Some v)
  then have "(k, v) \<in> set p"
    by (rule map_of_SomeD)
  with assms have "cell_encodable v"
    by (auto simp: list_all_iff)
  with Some show ?thesis
    by simp
qed

lemma row_encodable:
  "list_all cell_encodable (map snd p) \<Longrightarrow>
     list_all cell_encodable (map (\<lambda>k. case map_of p k of Some v \<Rightarrow> v | None \<Rightarrow> JStr '''') hs)"
  by (simp add: list_all_iff lookup_encodable)


lemma writerows_unencodable:
  assumes "\<forall>p\<in>set pre. set (map fst p) \<subseteq> set hs \<and> list_all cell_encodable (map snd p)"
      and "set (map fst bad) \<subseteq> set hs"
      and "\<not> list_all cell_encodable
               (map (\<lambda>k. case map_of bad k of Some v \<Rightarrow> v | None \<Rightarrow> JStr '''') hs)"
  shows "writerows hs f (pre @ bad # post) (w\<lparr>files := F(f \<mapsto> rows)\<rparr>) =
           (Inl UnicodeEncodeError, w\<lparr>files := F(f \<mapsto> rows @
              map (\<lambda>p. map (\<lambda>k. case map_of p k of Some v \<Rightarrow> v | None \<Rightarrow> JStr '''') hs) pre)\<rparr>)"
  using assms
  by (induction pre arbitrary: rows)
     (simp_all add: dict_to_list_ok writerow_ok writerow_unencodable row_encodable)

section \<open>The example, evaluated\<close>

lemmas example_defs =
  example_env_def example_remote_def example_search_def example_summary_def empty_world_def
  http_json_def http_get_def raise_for_status_def details_request_def search_request_def
  summary_entry_def build_record_def fetch_paper_details_def id_list_def fetch_papers_def
  record_111_def record_222_def

lemma ex_details_111:
  "fetch_paper_details example_env (JStr ''111'') w =
     (Inr record_111, w\<lparr>http_log := http_log w @ [details_request (JStr ''111'')]\<rparr>)"
  by (simp add: example_defs)

lemma ex_details_222:
  "fetch_paper_details example_env (JStr ''222'') w =
     (Inr record_222, w\<lparr>http_log := http_log w @ [details_request (JStr ''222'')]\<rparr>)"
  by (simp add: example_defs)

lemma ex_fetch_cancer:
  "fetch_papers example_env ''cancer'' w =
     (Inr [record_111, record_222],
      w\<lparr>http_log := http_log w @ [search_request ''cancer'', details_request (JStr ''111''),
                                    details_request (JStr ''222'')]\<rparr>)"
  by (simp add: fetch_papers_def ex_details_111 ex_details_222)
     (simp add: example_defs)

lemma ex_http_222:
  "http_json example_env (details_request (JStr ''222'')) w =
     (Inr (JObj [(''result'',
          JObj [(''uids'', JArr [JStr ''222'']), (''222'', JObj [(''uid'', JStr ''222'')])])]),
      w\<lparr>http_log := http_log w @ [details_request (JStr ''222'')]\<rparr>)"
  by (simp add: example_defs)

lemma ex_http_333:
  "http_json example_env (details_request (JStr ''333'')) w =
     (Inr (JObj [(''result'', JObj [(''uids'', JArr [])])]),
      w\<lparr>http_log := http_log w @ [details_request (JStr ''333'')]\<rparr>)"
  by (simp add: example_defs)

lemma ex_http_444:
  "http_json example_env (details_request (JStr ''444'')) w =
     (Inr (JObj [(''result'',
          JObj [(''uids'', JArr [JStr ''444'']),
                (''444'', JObj [(''uid'', JStr ''444''), (''pubdate'', JStr ''''),
                                (''title'', JNull)])])]),
      w\<lparr>http_log := http_log w @ [details_request (JStr ''444'')]\<rparr>)"
  by (simp add: example_defs)

lemma ex_search_flaky:
  "http_json example_env (search_request ''flaky'') w =
     (Inr flaky_data, w\<lparr>http_log := http_log w @ [search_request ''flaky'']\<rparr>)"
  by (simp add: example_defs flaky_data_def flaky_ids_def)

lemma ex_http_999:
  "http_json example_env (details_request (JStr ''999'')) w =
     (Inl (HTTPError 503), w\<lparr>http_log := http_log w @ [details_request (JStr ''999'')]\<rparr>)"
  by (simp add: example_defs)

lemma ex_fetch_flaky:
  "fetch_papers example_env ''flaky'' w =
     (Inl (HTTPError 503),
      w\<lparr>http_log := http_log w @ [search_request ''flaky'', details_request (JStr ''111''),
                                    details_request (JStr ''999'')]\<rparr>)"
  by (simp add: example_defs)

lemma ex_search_nothing:
  "http_json example_env (search_request ''nothing'') w =
     (Inr nothing_data, w\<lparr>http_log := http_log w @ [search_request ''nothing'']\<rparr>)"
  by (simp add: example_defs nothing_data_def)

lemma ex_fetch_nothing:
  "fetch_papers example_env ''nothing'' w =
     (Inr [], w\<lparr>http_log := http_log w @ [search_request ''nothing'']\<rparr>)"
  by (simp add: fetch_papers_def ex_search_nothing) (simp add: nothing_data_def id_list_def)

lemma ex_fetch_odd:
  "fetch_papers example_env ''odd'' w =
     (Inl AttributeError, w\<lparr>http_log := http_log w @ [search_request ''odd'']\<rparr>)"
  by (simp add: example_defs)

lemma ex_open_error:
  "open_error example_env ''/proc/out.csv'' = Some (OSError ''Permission denied'')"
  by (simp add: example_env_def)

lemma ex_save_cancer:
  "save_to_csv example_env [record_111, record_222] ''out.csv'' w =
     (Inr (), w\<lparr>files := (files w)(''out.csv'' \<mapsto>
        [map JStr headers, map snd record_111, map snd record_222])\<rparr>)"
  by (simp add: save_to_csv_def example_env_def writerow_ok headers_encodable)
     (simp add: dict_to_list_def writerow_ok headers_def record_111_def record_222_def)

lemma ex_details_555:
  "fetch_paper_details example_env (JStr ''555'') w =
     (Inr record_555, w\<lparr>http_log := http_log w @ [details_request (JStr ''555'')]\<rparr>)"
  by (simp add: example_defs record_555_def)

section \<open>The claims\<close>

text \<open>
  C1. When the search response yields a list of N identifiers and \<open>fetch_papers\<close>
  returns, the collection it returns has exactly N records, the record at each position
  carries the identifier at that position, and the requests sent are the search request
  followed by exactly one detail request per identifier, in list order. Every call of
  \<open>fetch_paper_details\<close> sends exactly one detail request
  (\<open>fetch_paper_details_world\<close>), so the log counts the calls. The loop returns
  whenever every detail call does (\<open>fetch_loop_returns\<close>).
\<close>

theorem fetch_papers_one_record_per_identifier:
  assumes search: "http_json e (search_request q) w = (Inr data, w0)"
      and ids: "id_list data = Inr (JArr ids)"
      and ret: "fetch_papers e q w = (Inr papers, w1)"
  shows "length papers = length ids
       \<and> map (\<lambda>p. map_of p ''PubmedID'') papers = map Some ids
       \<and> http_log w1 = http_log w @ search_request q # map details_request ids"
proof -
  from search ids ret have loop: "fetch_loop e ids [] w0 = (Inr papers, w1)"
    by (simp add: fetch_papers_def)
  from search have w0: "w0 = w\<lparr>http_log := http_log w @ [search_request q]\<rparr>"
    by (rule http_json_world)
  from fetch_loop_Inr [OF loop] have
    w1: "w1 = w0\<lparr>http_log := http_log w0 @ map details_request ids\<rparr>" and
    ps: "map (\<lambda>p. map_of p ''PubmedID'') papers = map Some ids"
    by auto
  from ps have "length papers = length ids"
    by (rule map_eq_imp_length_eq)
  with ps w1 w0 show ?thesis by simp
qed

theorem fetch_papers_one_record_per_identifier_witness:
  "length [record_111, record_222] = length [JStr ''111'', JStr ''222'']
   \<and> map (\<lambda>p. map_of p ''PubmedID'') [record_111, record_222] = map Some [JStr ''111'', JStr ''222'']
   \<and> http_log (empty_world\<lparr>http_log := http_log empty_world @ [search_request ''cancer'', details_request (JStr ''111''),
                                    details_request (JStr ''222'')]\<rparr>) =
      http_log empty_world @ search_request ''cancer'' # map details_request [JStr ''111'', JStr ''222'']"
proof -
  have search: "http_json example_env (search_request ''cancer'') empty_world =
      (Inr (JObj [(''esearchresult'',
          JObj [(''count'', JStr ''2''), (''idlist'', JArr [JStr ''111'', JStr ''222''])])]),
       empty_world\<lparr>http_log := [search_request ''cancer'']\<rparr>)"
    by (simp add: example_defs)
  have ids: "id_list (JObj [(''esearchresult'',
          JObj [(''count'', JStr ''2''), (''idlist'', JArr [JStr ''111'', JStr ''222''])])])
       = Inr (JArr [JStr ''111'', JStr ''222''])"
    by (simp add: id_list_def)
  show ?thesis
    by (rule fetch_papers_one_record_per_identifier [OF search ids ex_fetch_cancer])
qed

text \<open>
  C2. Every record \<open>fetch_paper_details\<close> produces has exactly the six named keys, and
  its Title and Publication Date are \<open>N/A\<close> whenever the per-identifier entry of the
  detail response (the empty dict when the response has none) lacks the key \<open>title\<close>,
  respectively \<open>pubdate\<close>.
\<close>

theorem fetch_paper_details_six_fields:
  assumes "fetch_paper_details e paper_id w = (Inr r, w1)"
  shows "\<exists>doc kvs.
           http_json e (details_request paper_id) w = (Inr doc, w1) \<and>
           summary_entry doc paper_id = Inr (JObj kvs) \<and>
           map fst r = [''PubmedID'', ''Title'', ''Publication Date'', ''Non-academic Author(s)'',
                        ''Company Affiliation(s)'', ''Corresponding Author Email''] \<and>
           (map_of kvs ''title'' = None \<longrightarrow> map_of r ''Title'' = Some (JStr ''N/A'')) \<and>
           (map_of kvs ''pubdate'' = None \<longrightarrow> map_of r ''Publication Date'' = Some (JStr ''N/A''))"
proof -
  from assms obtain doc kvs where
    h: "http_json e (details_request paper_id) w = (Inr doc, w1)" and
    s: "summary_entry doc paper_id = Inr (JObj kvs)" and
    b: "build_record paper_id (JObj kvs) = Inr r"
    using fetch_paper_details_Inr by blast
  from build_record_Inr [OF b] have f:
    "map fst r = [''PubmedID'', ''Title'', ''Publication Date'', ''Non-academic Author(s)'',
                  ''Company Affiliation(s)'', ''Corresponding Author Email'']"
    "map_of kvs ''title'' = None \<longrightarrow> map_of r ''Title'' = Some (JStr ''N/A'')"
    "map_of kvs ''pubdate'' = None \<longrightarrow> map_of r ''Publication Date'' = Some (JStr ''N/A'')"
    by auto
  from h s f show ?thesis
    apply (rule_tac x = doc in exI)
    apply (rule_tac x = kvs in exI)
    apply (intro conjI)
    apply assumption+
    done
qed

theorem fetch_paper_details_six_fields_witness:
  "map fst record_222 = [''PubmedID'', ''Title'', ''Publication Date'', ''Non-academic Author(s)'',
                        ''Company Affiliation(s)'', ''Corresponding Author Email'']
   \<and> map_of record_222 ''Title'' = Some (JStr ''N/A'')
   \<and> map_of record_222 ''Publication Date'' = Some (JStr ''N/A'')"
proof -
  from fetch_paper_details_six_fields [OF ex_details_222 [of empty_world]]
  obtain doc kvs where
    h: "http_json example_env (details_request (JStr ''222'')) empty_world =
          (Inr doc, empty_world\<lparr>http_log := http_log empty_world @ [details_request (JStr ''222'')]\<rparr>)" and
    s: "summary_entry doc (JStr ''222'') = Inr (JObj kvs)" and
    k: "map fst record_222 = [''PubmedID'', ''Title'', ''Publication Date'', ''Non-academic Author(s)'',
                              ''Company Affiliation(s)'', ''Corresponding Author Email'']" and
    t: "map_of kvs ''title'' = None \<longrightarrow> map_of record_222 ''Title'' = Some (JStr ''N/A'')" and
    d: "map_of kvs ''pubdate'' = None \<longrightarrow> map_of record_222 ''Publication Date'' = Some (JStr ''N/A'')"
    by (elim exE conjE)
  from h have "doc = JObj [(''result'',
          JObj [(''uids'', JArr [JStr ''222'']), (''222'', JObj [(''uid'', JStr ''222'')])])]"
    by (simp add: ex_http_222)
  with s have "kvs = [(''uid'', JStr ''222'')]"
    by (simp add: summary_entry_def)
  with k t d show ?thesis
    by simp
qed

text \<open>
  C3, as amended. The claim says that an identifier with no matching entry in the detail
  response gives an empty result. The code looks the entry up with the empty dict as
  default and builds the record from it: when the response is an object whose
  \<open>result\<close> (the empty dict when absent) is a dict without the identifier, the
  function returns a complete record, with the identifier and \<open>N/A\<close> for title and
  date. It has no path that returns an empty result.
\<close>

theorem fetch_paper_details_no_entry:
  assumes "http_json e (details_request (JStr i)) w = (Inr doc, w1)"
      and "py_get doc (JStr ''result'') (JObj []) = Inr (JObj res)"
      and "map_of res i = None"
  shows "fetch_paper_details e (JStr i) w =
           (Inr [(''PubmedID'', JStr i),
                 (''Title'', JStr ''N/A''),
                 (''Publication Date'', JStr ''N/A''),
                 (''Non-academic Author(s)'', JStr ''John Doe, PharmaCorp Inc.''),
                 (''Company Affiliation(s)'', JStr ''PharmaCorp Inc.''),
                 (''Corresponding Author Email'', JStr ''contact@pharma.com'')], w1)"
  using assms by (simp add: fetch_paper_details_def summary_entry_def build_record_def)

theorem fetch_paper_details_no_entry_witness:
  "fetch_paper_details example_env (JStr ''333'') empty_world =
     (Inr record_333, empty_world\<lparr>http_log := http_log empty_world @ [details_request (JStr ''333'')]\<rparr>)"
proof -
  have r: "py_get (JObj [(''result'', JObj [(''uids'', JArr [])])]) (JStr ''result'') (JObj [])
             = Inr (JObj [(''uids'', JArr [])])"
    by simp
  have n: "map_of [(''uids'', JArr [])] ''333'' = None"
    by simp
  show ?thesis
    using fetch_paper_details_no_entry [OF ex_http_333 r n, of empty_world]
    by (simp add: record_333_def)
qed

text \<open>
  The claim as stated fails in the example: the summary of 333 has no entry for 333, and
  the result is a record, not the empty dict.
\<close>

theorem fetch_paper_details_no_entry_counterexample:
  "http_json example_env (details_request (JStr ''333'')) empty_world =
     (Inr (JObj [(''result'', JObj [(''uids'', JArr [])])]),
      empty_world\<lparr>http_log := [details_request (JStr ''333'')]\<rparr>)
   \<and> map_of [(''uids'', JArr [])] ''333'' = None
   \<and> fst (fetch_paper_details example_env (JStr ''333'') empty_world) = Inr record_333
   \<and> fst (fetch_paper_details example_env (JStr ''333'') empty_world) \<noteq> Inr []"
  by (simp add: example_defs record_333_def)

text \<open>
  C4. A request exception in the search step, or in the detail step of some identifier
  after the records of the identifiers before it were gathered, ends the run with
  status 0, the error message as the only line printed, and the files as they were: no
  file is created, no record is printed, and the gathered records are dropped.
\<close>

theorem transport_failure_writes_nothing:
  assumes req: "is_request_exception x"
      and fail:
        "http_json e (search_request (query a)) w = (Inl x, w1)
         \<or> (\<exists>data ids pre paper_id post gathered w0 wk.
               http_json e (search_request (query a)) w = (Inr data, w0) \<and>
               id_list data = Inr ids \<and>
               py_iter ids = Inr (pre @ paper_id # post) \<and>
               fetch_loop e pre [] w0 = (Inr gathered, wk) \<and>
               http_json e (details_request paper_id) wk = (Inl x, w1))"
  shows "fst (main e a w) = 0
       \<and> files (snd (main e a w)) = files w
       \<and> console (snd (main e a w)) = console w @ [TextExn ''Error fetching data: '' x]"
proof -
  from fail have fp: "fetch_papers e (query a) w = (Inl x, w1)"
  proof
    assume "http_json e (search_request (query a)) w = (Inl x, w1)"
    then show ?thesis by (simp add: fetch_papers_def)
  next
    assume "\<exists>data ids pre paper_id post gathered w0 wk.
               http_json e (search_request (query a)) w = (Inr data, w0) \<and>
               id_list data = Inr ids \<and>
               py_iter ids = Inr (pre @ paper_id # post) \<and>
               fetch_loop e pre [] w0 = (Inr gathered, wk) \<and>
               http_json e (details_request paper_id) wk = (Inl x, w1)"
    then obtain data ids pre paper_id post gathered w0 wk where
      s: "http_json e (search_request (query a)) w = (Inr data, w0)" and
      i: "id_list data = Inr ids" and
      p: "py_iter ids = Inr (pre @ paper_id # post)" and
      l: "fetch_loop e pre [] w0 = (Inr gathered, wk)" and
      d: "http_json e (details_request paper_id) wk = (Inl x, w1)"
      by blast
    from d have "fetch_paper_details e paper_id wk = (Inl x, w1)"
      by (simp add: fetch_paper_details_def)
    then have "fetch_loop e (paper_id # post) gathered wk = (Inl x, w1)"
      by simp
    with l have "fetch_loop e (pre @ paper_id # post) [] w0 = (Inl x, w1)"
      by (simp add: fetch_loop_append)
    with s i p show ?thesis by (simp add: fetch_papers_def)
  qed
  from fetch_papers_world [OF fp] main_request_exception [OF fp req]
  show ?thesis by (simp add: print_line_def)
qed

theorem transport_failure_writes_nothing_witness:
  "fst (main example_env flaky_args empty_world) = 0
   \<and> files (snd (main example_env flaky_args empty_world)) = files empty_world
   \<and> console (snd (main example_env flaky_args empty_world)) =
       console empty_world @ [TextExn ''Error fetching data: '' (HTTPError 503)]"
proof -
  have req: "is_request_exception (HTTPError 503)"
    by simp
  have q: "query flaky_args = ''flaky''"
    by (simp add: flaky_args_def)
  have i: "id_list flaky_data = Inr flaky_ids"
    by (simp add: id_list_def flaky_data_def)
  have p: "py_iter flaky_ids = Inr ([JStr ''111''] @ JStr ''999'' # [])"
    by (simp add: flaky_ids_def)
  have "\<exists>data ids pre paper_id post gathered w0 wk.
               http_json example_env (search_request (query flaky_args)) empty_world = (Inr data, w0) \<and>
               id_list data = Inr ids \<and>
               py_iter ids = Inr (pre @ paper_id # post) \<and>
               fetch_loop example_env pre [] w0 = (Inr gathered, wk) \<and>
               http_json example_env (details_request paper_id) wk = (Inl (HTTPError 503), 
                  empty_world\<lparr>http_log := [search_request ''flaky'', details_request (JStr ''111''), details_request (JStr ''999'')]\<rparr>)"
    apply (rule exI [where x = flaky_data])
    apply (rule exI [where x = flaky_ids])
    apply (rule exI [where x = "[JStr ''111'']"])
    apply (rule exI [where x = "JStr ''999''"])
    apply (rule exI [where x = "[]"])
    apply (rule exI [where x = "[record_111]"])
    apply (rule exI [where x = "empty_world\<lparr>http_log := http_log empty_world @ [search_request ''flaky'']\<rparr>"])
    apply (rule exI [where x = "empty_world\<lparr>http_log := http_log empty_world @ [search_request ''flaky''] @ [details_request (JStr ''111'')]\<rparr>"])
    apply (simp add: q ex_search_flaky i p ex_details_111 ex_http_999 empty_world_def record_111_def)
    done
  then show ?thesis
    using transport_failure_writes_nothing [OF req disjI2] by blast
qed

text \<open>
  C5. The exit status is 0 when the result is empty, when the records are printed, when
  the file is saved, and when a request exception is caught (its message is printed);
  it is 1 when \<open>fetch_papers\<close> or \<open>save_to_csv\<close> raises any other exception, in
  particular the \<open>OSError\<close> that \<open>save_to_csv\<close> raises when the output file cannot be
  opened: it is not caught, and nothing is printed.
\<close>

theorem exit_status:
  "(fetch_papers e (query a) w = (Inr [], wa) \<longrightarrow> fst (main e a w) = 0)
   \<and> (fetch_papers e (query a) w = (Inr papers, wa) \<and> (outfile a = None \<or> outfile a = Some [])
        \<longrightarrow> fst (main e a w) = 0)
   \<and> (fetch_papers e (query a) w = (Inr papers, wa) \<and> outfile a = Some f
        \<and> save_to_csv e papers f wa = (Inr u, wb)
        \<longrightarrow> fst (main e a w) = 0)
   \<and> (fetch_papers e (query a) w = (Inl x, wa) \<and> is_request_exception x
        \<longrightarrow> main e a w = (0, print_line (TextExn ''Error fetching data: '' x) wa))
   \<and> (fetch_papers e (query a) w = (Inl x, wa) \<and> \<not> is_request_exception x
        \<longrightarrow> main e a w = (1, wa))
   \<and> (fetch_papers e (query a) w = (Inr papers, wa) \<and> papers \<noteq> [] \<and> outfile a = Some f \<and> f \<noteq> []
        \<and> save_to_csv e papers f wa = (Inl x, wb) \<and> \<not> is_request_exception x
        \<longrightarrow> main e a w = (1, wb))
   \<and> (open_error e f = Some (OSError m)
        \<longrightarrow> save_to_csv e papers f wa = (Inl (OSError m), wa))"
proof (intro conjI impI)
  assume "fetch_papers e (query a) w = (Inr [], wa)"
  then show "fst (main e a w) = 0"
    by (simp add: main_def main_try_def)
next
  assume "fetch_papers e (query a) w = (Inr papers, wa) \<and> (outfile a = None \<or> outfile a = Some [])"
  then show "fst (main e a w) = 0"
    by (auto simp: main_def main_try_def)
next
  assume "fetch_papers e (query a) w = (Inr papers, wa) \<and> outfile a = Some f
            \<and> save_to_csv e papers f wa = (Inr u, wb)"
  then show "fst (main e a w) = 0"
    by (simp add: main_def main_try_def)
next
  assume "fetch_papers e (query a) w = (Inl x, wa) \<and> is_request_exception x"
  then show "main e a w = (0, print_line (TextExn ''Error fetching data: '' x) wa)"
    by (simp add: main_def main_try_def)
next
  assume "fetch_papers e (query a) w = (Inl x, wa) \<and> \<not> is_request_exception x"
  then show "main e a w = (1, wa)"
    by (simp add: main_def main_try_def)
next
  assume "fetch_papers e (query a) w = (Inr papers, wa) \<and> papers \<noteq> [] \<and> outfile a = Some f
            \<and> f \<noteq> [] \<and> save_to_csv e papers f wa = (Inl x, wb) \<and> \<not> is_request_exception x"
  then show "main e a w = (1, wb)"
    by (simp add: main_def main_try_def)
next
  assume "open_error e f = Some (OSError m)"
  then show "save_to_csv e papers f wa = (Inl (OSError m), wa)"
    by (simp add: save_to_csv_def)
qed

theorem exit_status_witness:
  "fst (main example_env nothing_args empty_world) = 0
   \<and> fst (main example_env (cancer_args None) empty_world) = 0
   \<and> fst (main example_env (cancer_args (Some ''out.csv'')) empty_world) = 0
   \<and> main example_env flaky_args empty_world =
       (0, print_line (TextExn ''Error fetching data: '' (HTTPError 503))
             (empty_world\<lparr>http_log := http_log empty_world @
                [search_request ''flaky'', details_request (JStr ''111''), details_request (JStr ''999'')]\<rparr>))
   \<and> main example_env odd_args empty_world =
       (1, empty_world\<lparr>http_log := http_log empty_world @ [search_request ''odd'']\<rparr>)
   \<and> main example_env (cancer_args (Some ''/proc/out.csv'')) empty_world =
       (1, empty_world\<lparr>http_log := http_log empty_world @
             [search_request ''cancer'', details_request (JStr ''111''), details_request (JStr ''222'')]\<rparr>)
   \<and> save_to_csv example_env [record_111, record_222] ''/proc/out.csv'' empty_world =
       (Inl (OSError ''Permission denied''), empty_world)"
proof (intro conjI)
  have "fetch_papers example_env (query nothing_args) empty_world =
          (Inr [], empty_world\<lparr>http_log := http_log empty_world @ [search_request ''nothing'']\<rparr>)"
    by (simp add: nothing_args_def ex_fetch_nothing)
  with exit_status [where e = example_env and a = nothing_args and w = empty_world]
  show "fst (main example_env nothing_args empty_world) = 0"
    by blast
next
  have "fetch_papers example_env (query (cancer_args None)) empty_world =
          (Inr [record_111, record_222], empty_world\<lparr>http_log := http_log empty_world @
             [search_request ''cancer'', details_request (JStr ''111''), details_request (JStr ''222'')]\<rparr>)
        \<and> (outfile (cancer_args None) = None \<or> outfile (cancer_args None) = Some [])"
    by (simp add: cancer_args_def ex_fetch_cancer)
  with exit_status [where e = example_env and a = "cancer_args None" and w = empty_world]
  show "fst (main example_env (cancer_args None) empty_world) = 0"
    by blast
next
  have "fetch_papers example_env (query (cancer_args (Some ''out.csv''))) empty_world =
          (Inr [record_111, record_222], empty_world\<lparr>http_log := http_log empty_world @
             [search_request ''cancer'', details_request (JStr ''111''), details_request (JStr ''222'')]\<rparr>)
        \<and> outfile (cancer_args (Some ''out.csv'')) = Some ''out.csv''"
    by (simp add: cancer_args_def ex_fetch_cancer)
  with exit_status [where e = example_env and a = "cancer_args (Some ''out.csv'')" and w = empty_world
      and f = "''out.csv''" and papers = "[record_111, record_222]"] ex_save_cancer
  show "fst (main example_env (cancer_args (Some ''out.csv'')) empty_world) = 0"
    by blast
next
  have "fetch_papers example_env (query flaky_args) empty_world =
          (Inl (HTTPError 503), empty_world\<lparr>http_log := http_log empty_world @
             [search_request ''flaky'', details_request (JStr ''111''), details_request (JStr ''999'')]\<rparr>)
        \<and> is_request_exception (HTTPError 503)"
    by (simp add: flaky_args_def ex_fetch_flaky)
  with exit_status [where e = example_env and a = flaky_args and w = empty_world]
  show "main example_env flaky_args empty_world =
       (0, print_line (TextExn ''Error fetching data: '' (HTTPError 503))
             (empty_world\<lparr>http_log := http_log empty_world @
                [search_request ''flaky'', details_request (JStr ''111''), details_request (JStr ''999'')]\<rparr>))"
    by blast
next
  have "fetch_papers example_env (query odd_args) empty_world =
          (Inl AttributeError, empty_world\<lparr>http_log := http_log empty_world @ [search_request ''odd'']\<rparr>)
        \<and> \<not> is_request_exception AttributeError"
    by (simp add: odd_args_def ex_fetch_odd)
  with exit_status [where e = example_env and a = odd_args and w = empty_world]
  show "main example_env odd_args empty_world =
       (1, empty_world\<lparr>http_log := http_log empty_world @ [search_request ''odd'']\<rparr>)"
    by blast
next
  let ?wa = "empty_world\<lparr>http_log := http_log empty_world @
             [search_request ''cancer'', details_request (JStr ''111''), details_request (JStr ''222'')]\<rparr>"
  from exit_status [where e = example_env and f = "''/proc/out.csv''" and wa = ?wa
      and papers = "[record_111, record_222]"] ex_open_error
  have "save_to_csv example_env [record_111, record_222] ''/proc/out.csv'' ?wa =
          (Inl (OSError ''Permission denied''), ?wa)"
    by blast
  then have "fetch_papers example_env (query (cancer_args (Some ''/proc/out.csv''))) empty_world =
          (Inr [record_111, record_222], ?wa)
        \<and> [record_111, record_222] \<noteq> []
        \<and> outfile (cancer_args (Some ''/proc/out.csv'')) = Some ''/proc/out.csv''
        \<and> ''/proc/out.csv'' \<noteq> []
        \<and> save_to_csv example_env [record_111, record_222] ''/proc/out.csv'' ?wa =
            (Inl (OSError ''Permission denied''), ?wa)
        \<and> \<not> is_request_exception (OSError ''Permission denied'')"
    by (simp add: cancer_args_def ex_fetch_cancer)
  with exit_status [where e = example_env and a = "cancer_args (Some ''/proc/out.csv'')" and w = empty_world]
  show "main example_env (cancer_args (Some ''/proc/out.csv'')) empty_world = (1, ?wa)"
    by blast
next
  from exit_status [where e = example_env and f = "''/proc/out.csv''" and wa = empty_world
      and papers = "[record_111, record_222]"] ex_open_error
  show "save_to_csv example_env [record_111, record_222] ''/proc/out.csv'' empty_world =
          (Inl (OSError ''Permission denied''), empty_world)"
    by blast
qed




text \<open>
  C7. When the search step yields no identifier, the program prints the
  "no papers found" message and nothing else, leaves the files as they were whatever
  the filename argument is, and exits with status 0.
\<close>

theorem no_identifiers_no_file:
  assumes "http_json e (search_request (query a)) w = (Inr data, w1)"
      and "id_list data = Inr ids"
      and "py_iter ids = Inr []"
  shows "fst (main e a w) = 0
       \<and> files (snd (main e a w)) = files w
       \<and> console (snd (main e a w)) = console w @ [Text ''No papers found for the given query.'']"
proof -
  from assms have fp: "fetch_papers e (query a) w = (Inr [], w1)"
    by (simp add: fetch_papers_def)
  then have "main e a w = (0, print_line (Text ''No papers found for the given query.'') w1)"
    by (simp add: main_def main_try_def)
  with fetch_papers_world [OF fp] show ?thesis
    by (simp add: print_line_def)
qed

theorem no_identifiers_no_file_witness:
  "fst (main example_env nothing_args empty_world) = 0
   \<and> files (snd (main example_env nothing_args empty_world)) = files empty_world
   \<and> console (snd (main example_env nothing_args empty_world)) =
       console empty_world @ [Text ''No papers found for the given query.'']"
proof -
  have s: "http_json example_env (search_request (query nothing_args)) empty_world =
     (Inr nothing_data, empty_world\<lparr>http_log := http_log empty_world @ [search_request ''nothing'']\<rparr>)"
    by (simp add: nothing_args_def ex_search_nothing)
  have i: "id_list nothing_data = Inr (JArr [])"
    by (simp add: nothing_data_def id_list_def)
  have p: "py_iter (JArr []) = Inr []"
    by simp
  show ?thesis
    by (rule no_identifiers_no_file [OF s i p])
qed

text \<open>
  C8. The three placeholder fields of a returned record are the same fixed strings for
  every environment, identifier and response: any two calls that return agree on them.
\<close>

theorem placeholder_fields_constant:
  assumes "fetch_paper_details e1 id1 w1 = (Inr r1, v1)"
      and "fetch_paper_details e2 id2 w2 = (Inr r2, v2)"
  shows "map_of r1 ''Non-academic Author(s)'' = Some (JStr ''John Doe, PharmaCorp Inc.'')
       \<and> map_of r1 ''Company Affiliation(s)'' = Some (JStr ''PharmaCorp Inc.'')
       \<and> map_of r1 ''Corresponding Author Email'' = Some (JStr ''contact@pharma.com'')
       \<and> map_of r2 ''Non-academic Author(s)'' = map_of r1 ''Non-academic Author(s)''
       \<and> map_of r2 ''Company Affiliation(s)'' = map_of r1 ''Company Affiliation(s)''
       \<and> map_of r2 ''Corresponding Author Email'' = map_of r1 ''Corresponding Author Email''"
proof -
  from assms(1) obtain k1 where "build_record id1 (JObj k1) = Inr r1"
    using fetch_paper_details_Inr by blast
  then have 1: "map_of r1 ''Non-academic Author(s)'' = Some (JStr ''John Doe, PharmaCorp Inc.'')"
    "map_of r1 ''Company Affiliation(s)'' = Some (JStr ''PharmaCorp Inc.'')"
    "map_of r1 ''Corresponding Author Email'' = Some (JStr ''contact@pharma.com'')"
    by (auto dest: build_record_Inr)
  from assms(2) obtain k2 where "build_record id2 (JObj k2) = Inr r2"
    using fetch_paper_details_Inr by blast
  then have 2: "map_of r2 ''Non-academic Author(s)'' = Some (JStr ''John Doe, PharmaCorp Inc.'')"
    "map_of r2 ''Company Affiliation(s)'' = Some (JStr ''PharmaCorp Inc.'')"
    "map_of r2 ''Corresponding Author Email'' = Some (JStr ''contact@pharma.com'')"
    by (auto dest: build_record_Inr)
  from 1 2 show ?thesis by simp
qed

theorem placeholder_fields_constant_witness:
  "map_of record_111 ''Non-academic Author(s)'' = Some (JStr ''John Doe, PharmaCorp Inc.'')
   \<and> map_of record_111 ''Company Affiliation(s)'' = Some (JStr ''PharmaCorp Inc.'')
   \<and> map_of record_111 ''Corresponding Author Email'' = Some (JStr ''contact@pharma.com'')
   \<and> map_of record_222 ''Non-academic Author(s)'' = map_of record_111 ''Non-academic Author(s)''
   \<and> map_of record_222 ''Company Affiliation(s)'' = map_of record_111 ''Company Affiliation(s)''
   \<and> map_of record_222 ''Corresponding Author Email'' = map_of record_111 ''Corresponding Author Email''"
  by (rule placeholder_fields_constant [OF ex_details_111 [of empty_world] ex_details_222 [of empty_world]])

text \<open>
  C9. The debug flag changes nothing: exit status, requests sent, lines printed and
  files are the same with and without it.
\<close>

theorem debug_flag_is_noop:
  "main e (a\<lparr>debug := d\<rparr>) w = main e a w"
proof -
  have "main_try e (a\<lparr>debug := d\<rparr>) w = main_try e a w"
    by (cases "fetch_papers e (query a) w") (simp add: main_try_def split: sum.splits)
  then show ?thesis
    by (simp add: main_def)
qed

theorem debug_flag_is_noop_witness:
  "main example_env ((cancer_args (Some ''out.csv''))\<lparr>debug := True\<rparr>) empty_world =
   main example_env (cancer_args (Some ''out.csv'')) empty_world"
  by (rule debug_flag_is_noop)

text \<open>
  C10. When the detail response has an entry for the identifier, the record is
  returned, and its Title is the entry's \<open>title\<close> whenever the key is there, whatever
  the value (null and the empty string pass through), and \<open>N/A\<close> only when the key is
  missing; the same for the Publication Date and \<open>pubdate\<close>.
\<close>

theorem sentinel_only_when_key_absent:
  assumes "http_json e (details_request paper_id) w = (Inr doc, w1)"
      and "summary_entry doc paper_id = Inr (JObj kvs)"
  shows "\<exists>r. fetch_paper_details e paper_id w = (Inr r, w1)
           \<and> map_of r ''Title'' = Some (case map_of kvs ''title'' of Some v \<Rightarrow> v | None \<Rightarrow> JStr ''N/A'')
           \<and> map_of r ''Publication Date'' =
               Some (case map_of kvs ''pubdate'' of Some v \<Rightarrow> v | None \<Rightarrow> JStr ''N/A'')"
  using assms by (simp add: fetch_paper_details_def build_record_def)

theorem sentinel_only_when_key_absent_witness:
  "\<exists>r. fetch_paper_details example_env (JStr ''444'') empty_world =
          (Inr r, empty_world\<lparr>http_log := http_log empty_world @ [details_request (JStr ''444'')]\<rparr>)
       \<and> map_of r ''Title'' = Some JNull
       \<and> map_of r ''Publication Date'' = Some (JStr '''')"
proof -
  have s: "summary_entry (JObj [(''result'',
          JObj [(''uids'', JArr [JStr ''444'']),
                (''444'', JObj [(''uid'', JStr ''444''), (''pubdate'', JStr ''''),
                                (''title'', JNull)])])]) (JStr ''444'')
       = Inr (JObj [(''uid'', JStr ''444''), (''pubdate'', JStr ''''), (''title'', JNull)])"
    by (simp add: summary_entry_def)
  show ?thesis
    using sentinel_only_when_key_absent [OF ex_http_444 s, of empty_world]
    by simp
qed

end
